theory Spec2Isabelle
  imports Complex_Main "HOL-Library.Multiset" "HOL-Library.Product_Lexorder"
begin

section \<open>Values, errors and cards (cards.py)\<close>

text \<open>
  The three exception classes the module raises itself, and \<open>NameError\<close> for the
  \<^verbatim>\<open>del r\<close> of a loop variable that was never bound (\<^verbatim>\<open>Deck.select\<close>).
\<close>

datatype error = TypeError | ValueError | IndexError | NameError

text \<open>
  A card object: its Python class (\<^verbatim>\<open>Card\<close> or the subclass \<^verbatim>\<open>Joker\<close>) and the four
  attributes the constructors set. The attributes are plain instance attributes in the
  source, so a record with independent fields is the faithful picture.
\<close>

datatype cls = CardT | JokerT

record card =
  kind :: cls
  rank :: int
  suit :: int
  color :: bool
  face_card :: bool

text \<open>
  The dynamically typed values that reach the methods: \<^verbatim>\<open>None\<close>, booleans, integers,
  strings, floats (the number they denote), card objects, lists, tuples, decks (their
  \<^verbatim>\<open>cards\<close> list) and slices with integer or absent components.
\<close>

datatype pyval =
    VNone
  | VBool bool
  | VInt int
  | VStr string
  | VFloat real
  | VCard card
  | VList "pyval list"
  | VTuple "pyval list"
  | VDeck "card list"
  | VSlice "int option" "int option" "int option"

fun is_card :: "pyval \<Rightarrow> bool" where
  "is_card (VCard c) = True"
| "is_card v = False"

fun the_card :: "pyval \<Rightarrow> card" where
  "the_card (VCard c) = c"
| "the_card v = \<lparr>kind = CardT, rank = 0, suit = 0, color = False, face_card = False\<rparr>"

fun is_int_or_str :: "pyval \<Rightarrow> bool" where
  "is_int_or_str (VInt i) = True"
| "is_int_or_str (VStr s) = True"
| "is_int_or_str v = False"

subsection \<open>Class tables and configuration\<close>

definition suits_dict :: "(string \<times> int) list" where
  "suits_dict = [(''Clubs'', 1), (''Spades'', 2), (''Diamonds'', 3), (''Hearts'', 4)]"

definition ranks_dict :: "(string \<times> int) list" where
  "ranks_dict = [(''Ace'', 1), (''2'', 2), (''3'', 3), (''4'', 4), (''5'', 5), (''6'', 6),
     (''7'', 7), (''8'', 8), (''9'', 9), (''10'', 10), (''Jack'', 11), (''Queen'', 12),
     (''King'', 13)]"

text \<open>The class variable \<^verbatim>\<open>__ace_worth_1\<close> starts as \<^verbatim>\<open>False\<close>; the functions that read
  it take its current value as their first argument.\<close>

definition default_ace_worth_1 :: bool where
  "default_ace_worth_1 = False"

definition get_ace_value :: "bool \<Rightarrow> int" where
  "get_ace_value ace_worth_1 = (if ace_worth_1 then 1 else 14)"

subsection \<open>Constructors\<close>

text \<open>A string argument is looked up in the class table, an integer is kept.\<close>

fun lookup_name :: "(string \<times> int) list \<Rightarrow> pyval \<Rightarrow> error + int" where
  "lookup_name d (VStr s) = (case map_of d s of Some n \<Rightarrow> Inr n | None \<Rightarrow> Inl ValueError)"
| "lookup_name d (VInt i) = Inr i"
| "lookup_name d v = Inl TypeError"

definition Card_init :: "pyval \<Rightarrow> pyval \<Rightarrow> error + card" where
  "Card_init r s =
     (if \<not> (is_int_or_str r \<and> is_int_or_str s) then Inl TypeError
      else case lookup_name ranks_dict r of
             Inl e \<Rightarrow> Inl e
           | Inr rk \<Rightarrow>
               (case lookup_name suits_dict s of
                  Inl e \<Rightarrow> Inl e
                | Inr st \<Rightarrow>
                    if 1 \<le> rk \<and> rk \<le> 13 \<and> 1 \<le> st \<and> st \<le> 4
                    then Inr \<lparr>kind = CardT, rank = rk, suit = st,
                              color = (st > 2), face_card = (rk > 10)\<rparr>
                    else Inl ValueError))"

text \<open>Calling the class with a positional argument list: \<^verbatim>\<open>__init__\<close> has exactly the two
  required parameters \<^verbatim>\<open>rank\<close> and \<^verbatim>\<open>suit\<close>, and Python raises \<^verbatim>\<open>TypeError\<close> for any
  other number of arguments before the body runs.\<close>

fun Card_call :: "pyval list \<Rightarrow> error + card" where
  "Card_call [r, s] = Card_init r s"
| "Card_call args = Inl TypeError"

definition Joker_init :: "pyval \<Rightarrow> error + card" where
  "Joker_init c =
     (case c of
        VStr s \<Rightarrow>
          if s = ''Red'' \<or> s = ''Black''
          then Inr \<lparr>kind = JokerT, rank = 0, suit = 0, color = (s = ''Red''), face_card = True\<rparr>
          else Inl ValueError
      | VBool b \<Rightarrow> Inr \<lparr>kind = JokerT, rank = 0, suit = 0, color = b, face_card = True\<rparr>
      | _ \<Rightarrow> Inl TypeError)"

subsection \<open>Comparisons\<close>

definition effective_rank :: "bool \<Rightarrow> card \<Rightarrow> int" where
  "effective_rank aw1 c = (if rank c = 1 then get_ace_value aw1 else rank c)"

definition Card_lt :: "bool \<Rightarrow> card \<Rightarrow> pyval \<Rightarrow> error + bool" where
  "Card_lt aw1 self other =
     (if \<not> is_card other then Inl ValueError
      else Inr (effective_rank aw1 self < effective_rank aw1 (the_card other)))"

definition Card_le :: "bool \<Rightarrow> card \<Rightarrow> pyval \<Rightarrow> error + bool" where
  "Card_le aw1 self other =
     (if \<not> is_card other then Inl ValueError
      else Inr (effective_rank aw1 self \<le> effective_rank aw1 (the_card other)))"

definition Card_gt :: "bool \<Rightarrow> card \<Rightarrow> pyval \<Rightarrow> error + bool" where
  "Card_gt aw1 self other =
     (if \<not> is_card other then Inl ValueError
      else Inr (effective_rank aw1 self > effective_rank aw1 (the_card other)))"

definition Card_ge :: "bool \<Rightarrow> card \<Rightarrow> pyval \<Rightarrow> error + bool" where
  "Card_ge aw1 self other =
     (if \<not> is_card other then Inl ValueError
      else Inr (effective_rank aw1 self \<ge> effective_rank aw1 (the_card other)))"

definition same_rank :: "card \<Rightarrow> pyval \<Rightarrow> error + bool" where
  "same_rank self other =
     (if \<not> is_card other then Inl ValueError else Inr (rank self = rank (the_card other)))"

definition same_suit :: "card \<Rightarrow> pyval \<Rightarrow> error + bool" where
  "same_suit self other =
     (if \<not> is_card other then Inl ValueError else Inr (suit self = suit (the_card other)))"

definition same_color :: "card \<Rightarrow> pyval \<Rightarrow> error + bool" where
  "same_color self other =
     (if \<not> is_card other then Inl ValueError else Inr (color self = color (the_card other)))"

text \<open>\<^verbatim>\<open>__eq__\<close>: the type check, then the short-circuit conjunction of the three
  \<^verbatim>\<open>same_*\<close> calls and the comparison of \<^verbatim>\<open>face_card\<close>.\<close>

definition Card_eq :: "card \<Rightarrow> pyval \<Rightarrow> error + bool" where
  "Card_eq self other =
     (if \<not> is_card other then Inl ValueError
      else case same_rank self other of
             Inl e \<Rightarrow> Inl e
           | Inr False \<Rightarrow> Inr False
           | Inr True \<Rightarrow>
               (case same_suit self other of
                  Inl e \<Rightarrow> Inl e
                | Inr False \<Rightarrow> Inr False
                | Inr True \<Rightarrow>
                    (case same_color self other of
                       Inl e \<Rightarrow> Inl e
                     | Inr False \<Rightarrow> Inr False
                     | Inr True \<Rightarrow> Inr (face_card self = face_card (the_card other)))))"

text \<open>Equality of two card objects, as the list operations \<^verbatim>\<open>in\<close>, \<^verbatim>\<open>remove\<close> and
  \<^verbatim>\<open>index\<close> use it: the class is not compared.\<close>

definition card_eq :: "card \<Rightarrow> card \<Rightarrow> bool" where
  "card_eq a b = (Card_eq a (VCard b) = Inr True)"

definition attrs :: "card \<Rightarrow> int \<times> int \<times> bool \<times> bool" where
  "attrs c = (rank c, suit c, color c, face_card c)"

section \<open>The deck engine\<close>

text \<open>A deck is its \<^verbatim>\<open>cards\<close> list. A method that mutates the deck returns the new list;
  a method that raises leaves the list as it was, since every \<^verbatim>\<open>raise\<close> of the source
  comes before the first mutation.\<close>

subsection \<open>List primitives of Python\<close>

text \<open>\<^verbatim>\<open>x in xs\<close> on a list of cards compares with \<^verbatim>\<open>__eq__\<close>.\<close>

definition py_in :: "card \<Rightarrow> card list \<Rightarrow> bool" where
  "py_in c xs = list_ex (\<lambda>x. card_eq x c) xs"

text \<open>\<^verbatim>\<open>xs.remove(c)\<close> deletes the first element equal to \<open>c\<close> and raises
  \<^verbatim>\<open>ValueError\<close> when there is none.\<close>

fun list_remove :: "card \<Rightarrow> card list \<Rightarrow> error + card list" where
  "list_remove c [] = Inl ValueError"
| "list_remove c (x # xs) =
     (if card_eq x c then Inr xs
      else case list_remove c xs of Inl e \<Rightarrow> Inl e | Inr ys \<Rightarrow> Inr (x # ys))"

text \<open>\<^verbatim>\<open>xs.pop(i)\<close> for an index already known to be in range.\<close>

definition list_pop :: "nat \<Rightarrow> 'a list \<Rightarrow> 'a list" where
  "list_pop i xs = take i xs @ drop (Suc i) xs"

text \<open>The position a slice bound denotes in a list of length \<open>n\<close>: a negative bound
  counts from the end, and the result is clamped to \<open>[0, n]\<close>.\<close>

definition slice_pos :: "nat \<Rightarrow> int \<Rightarrow> nat" where
  "slice_pos n i = (if i < 0 then nat (max 0 (int n + i)) else min (nat i) n)"

text \<open>\<^verbatim>\<open>xs[i:i] = ys\<close>.\<close>

definition slice_insert :: "int \<Rightarrow> 'a list \<Rightarrow> 'a list \<Rightarrow> 'a list" where
  "slice_insert i ys xs = take (slice_pos (length xs) i) xs @ ys @ drop (slice_pos (length xs) i) xs"

text \<open>\<^verbatim>\<open>xs[start:stop:step]\<close> with integer bounds: step zero raises \<^verbatim>\<open>ValueError\<close>,
  otherwise the bounds are adjusted as CPython does and the elements are read in
  steps.\<close>

definition adjust_bound :: "nat \<Rightarrow> int \<Rightarrow> int \<Rightarrow> int" where
  "adjust_bound n step b =
     (if b < 0 then (if int n + b < 0 then (if step < 0 then -1 else 0) else int n + b)
      else if b \<ge> int n then (if step < 0 then int n - 1 else int n)
      else b)"

definition list_slice :: "int \<Rightarrow> int \<Rightarrow> int option \<Rightarrow> 'a list \<Rightarrow> error + 'a list" where
  "list_slice start stop step xs =
     (let st = (case step of None \<Rightarrow> 1 | Some k \<Rightarrow> k) in
      if st = 0 then Inl ValueError
      else
        let lo = adjust_bound (length xs) st start;
            hi = adjust_bound (length xs) st stop;
            cnt = (if st > 0 then (if lo < hi then (hi - lo - 1) div st + 1 else 0)
                   else (if hi < lo then (lo - hi - 1) div (- st) + 1 else 0))
        in Inr (map (\<lambda>k. xs ! nat (lo + int k * st)) [0 ..< nat cnt]))"

subsection \<open>Argument normalisation\<close>

fun flatten_arg :: "pyval \<Rightarrow> pyval list" where
  "flatten_arg (VList xs) = xs"
| "flatten_arg (VTuple xs) = xs"
| "flatten_arg (VDeck cs) = map VCard cs"
| "flatten_arg v = [v]"

definition flatten_nested_collections :: "pyval list \<Rightarrow> pyval list" where
  "flatten_nested_collections collection = concat (map flatten_arg collection)"

subsection \<open>Construction\<close>

text \<open>The branch of \<^verbatim>\<open>Deck.__init__\<close> for a non-empty argument tuple.\<close>

definition Deck_init_args :: "pyval list \<Rightarrow> error + card list" where
  "Deck_init_args cards =
     (let flattened_list = flatten_nested_collections cards in
      if list_all is_card flattened_list then Inr (map the_card flattened_list)
      else Inl TypeError)"

text \<open>A comprehension whose body can raise: the first error stops it.\<close>

fun map_result :: "('a \<Rightarrow> error + 'b) \<Rightarrow> 'a list \<Rightarrow> error + 'b list" where
  "map_result f [] = Inr []"
| "map_result f (x # xs) =
     (case f x of
        Inl e \<Rightarrow> Inl e
      | Inr y \<Rightarrow> (case map_result f xs of Inl e \<Rightarrow> Inl e | Inr ys \<Rightarrow> Inr (y # ys)))"

text \<open>
  \<^verbatim>\<open>generate_standard_deck\<close> iterates over \<^verbatim>\<open>Card.get_suits()\<close> and
  \<^verbatim>\<open>Card.get_ranks()\<close>, which are Python sets of the table keys. The order in which a set
  of strings is iterated is fixed by the interpreter, not by the source, so the two
  iteration orders are parameters: \<open>suit_iter\<close> and \<open>rank_iter\<close>. An order is admissible
  when it lists every key exactly once.
\<close>

definition iteration_of :: "(string \<times> int) list \<Rightarrow> string list \<Rightarrow> bool" where
  "iteration_of d order = (distinct order \<and> set order = set (map fst d))"

definition generate_standard_deck :: "string list \<Rightarrow> string list \<Rightarrow> error + card list" where
  "generate_standard_deck suit_iter rank_iter =
     (case map_result (\<lambda>(s, r). Card_init (VStr r) (VStr s)) (List.product suit_iter rank_iter) of
        Inl e \<Rightarrow> Inl e
      | Inr cards \<Rightarrow>
          (case Joker_init (VStr ''Black'') of
             Inl e \<Rightarrow> Inl e
           | Inr jb \<Rightarrow>
               (case Joker_init (VStr ''Red'') of
                  Inl e \<Rightarrow> Inl e
                | Inr jr \<Rightarrow> Inr (cards @ [jb, jr]))))"

definition Deck_init :: "string list \<Rightarrow> string list \<Rightarrow> pyval list \<Rightarrow> error + card list" where
  "Deck_init suit_iter rank_iter cards =
     (if cards \<noteq> [] then Deck_init_args cards
      else generate_standard_deck suit_iter rank_iter)"

subsection \<open>Subscript access\<close>

definition resolve_index :: "nat \<Rightarrow> int \<Rightarrow> int" where
  "resolve_index n i = (if i < 0 then int n + i else i)"

text \<open>\<^verbatim>\<open>Deck.__getitem__\<close>. In the slice branch a missing bound is compared with \<open>0\<close>,
  which raises \<^verbatim>\<open>TypeError\<close>; the list slice is then handed to the \<^verbatim>\<open>Card\<close> class as its
  only argument.\<close>

definition Deck_getitem :: "pyval \<Rightarrow> card list \<Rightarrow> error + pyval" where
  "Deck_getitem item cards =
     (case item of
        VSlice a b st \<Rightarrow>
          (case a of
             None \<Rightarrow> Inl TypeError
           | Some start0 \<Rightarrow>
               let start = resolve_index (length cards) start0 in
               if \<not> (0 \<le> start \<and> start < int (length cards)) then Inl IndexError
               else
                 (case b of
                    None \<Rightarrow> Inl TypeError
                  | Some stop0 \<Rightarrow>
                      let stop = resolve_index (length cards) stop0 in
                      if \<not> (0 \<le> stop \<and> stop \<le> int (length cards)) then Inl IndexError
                      else
                        (case list_slice start0 stop0 st cards of
                           Inl e \<Rightarrow> Inl e
                         | Inr sl \<Rightarrow>
                             (case Card_call [VList (map VCard sl)] of
                                Inl e \<Rightarrow> Inl e
                              | Inr c \<Rightarrow> Inr (VCard c)))))
      | VInt i0 \<Rightarrow>
          let i = resolve_index (length cards) i0 in
          if \<not> (0 \<le> i \<and> i < int (length cards)) then Inl IndexError
          else Inr (VCard (cards ! nat i))
      | _ \<Rightarrow> Inl TypeError)"

subsection \<open>Insertion\<close>

text \<open>\<^verbatim>\<open>Deck.add(*cards, index=None)\<close>: the index check, then normalisation and the type
  check of every element, then \<^verbatim>\<open>extend\<close> or the slice assignment.\<close>

definition Deck_add :: "pyval list \<Rightarrow> pyval \<Rightarrow> card list \<Rightarrow> error + card list" where
  "Deck_add cards index self_cards =
     (let index_error =
            (case index of
               VNone \<Rightarrow> None
             | VInt i \<Rightarrow>
                 if i < - int (length self_cards) \<or> i > int (length self_cards)
                 then Some IndexError else None
             | _ \<Rightarrow> Some TypeError)
      in case index_error of
           Some e \<Rightarrow> Inl e
         | None \<Rightarrow>
             if cards \<noteq> [] then
               (let flat = flatten_nested_collections cards in
                if \<not> list_all is_card flat then Inl TypeError
                else (case index of
                        VInt i \<Rightarrow> Inr (slice_insert i (map the_card flat) self_cards)
                      | _ \<Rightarrow> Inr (self_cards @ map the_card flat)))
             else Inr self_cards)"

subsection \<open>Removal\<close>

text \<open>The partition pass of \<^verbatim>\<open>Deck.remove\<close>: \<open>idxs\<close> is \<^verbatim>\<open>indexes_to_remove\<close>, \<open>cs\<close> is
  \<^verbatim>\<open>cards_to_remove\<close>.\<close>

fun remove_scan :: "card list \<Rightarrow> pyval list \<Rightarrow> int list \<Rightarrow> card list
                      \<Rightarrow> error + (int list \<times> card list)" where
  "remove_scan self_cards [] idxs cs = Inr (idxs, cs)"
| "remove_scan self_cards (elt # rest) idxs cs =
     (case elt of
        VInt i \<Rightarrow>
          let e = resolve_index (length self_cards) i in
          if 0 \<le> e \<and> e < int (length self_cards)
          then remove_scan self_cards rest (if e \<in> set idxs then idxs else idxs @ [e]) cs
          else Inl IndexError
      | VCard c \<Rightarrow>
          if py_in c self_cards then remove_scan self_cards rest idxs (cs @ [c])
          else Inl ValueError
      | _ \<Rightarrow> Inl TypeError)"

text \<open>The two removal loops, each with the guard the source has.\<close>

fun pop_indexes :: "int list \<Rightarrow> card list \<Rightarrow> card list" where
  "pop_indexes [] xs = xs"
| "pop_indexes (i # is) xs =
     pop_indexes is (if 0 \<le> i \<and> i < int (length xs) then list_pop (nat i) xs else xs)"

fun remove_cards :: "card list \<Rightarrow> card list \<Rightarrow> error + card list" where
  "remove_cards [] xs = Inr xs"
| "remove_cards (c # cs) xs =
     (if py_in c xs
      then (case list_remove c xs of Inl e \<Rightarrow> Inl e | Inr ys \<Rightarrow> remove_cards cs ys)
      else remove_cards cs xs)"

text \<open>\<^verbatim>\<open>indexes_to_remove.sort(reverse=True)\<close> on integers.\<close>

definition sort_reverse :: "int list \<Rightarrow> int list" where
  "sort_reverse xs = rev (sort xs)"

definition Deck_remove :: "pyval list \<Rightarrow> card list \<Rightarrow> error + card list" where
  "Deck_remove cards_or_indexes self_cards =
     (if cards_or_indexes \<noteq> [] then
        (case remove_scan self_cards (flatten_nested_collections cards_or_indexes) [] [] of
           Inl e \<Rightarrow> Inl e
         | Inr (indexes_to_remove, cards_to_remove) \<Rightarrow>
             remove_cards cards_to_remove
               (pop_indexes (sort_reverse indexes_to_remove) self_cards))
      else Inr self_cards)"

subsection \<open>Sorting\<close>

text \<open>\<^verbatim>\<open>sorted\<close> is stable, as \<open>sort_key\<close> is; the key is a pair, compared
  lexicographically.\<close>

definition sort_by_suit :: "bool \<Rightarrow> card list \<Rightarrow> card list" where
  "sort_by_suit aw1 cards =
     sort_key (\<lambda>c. (suit c, if rank c \<noteq> 1 then rank c else get_ace_value aw1)) cards"

definition sort_by_rank :: "bool \<Rightarrow> card list \<Rightarrow> card list" where
  "sort_by_rank aw1 cards =
     sort_key (\<lambda>c. (if rank c \<noteq> 1 then rank c else get_ace_value aw1, suit c)) cards"

subsection \<open>Lookup and drawing\<close>

text \<open>The loop of \<^verbatim>\<open>Deck.get\<close> over the flattened arguments.\<close>

fun get_scan :: "card list \<Rightarrow> pyval list \<Rightarrow> error + card list" where
  "get_scan self_cards [] = Inr []"
| "get_scan self_cards (item # rest) =
     (case item of
        VInt i0 \<Rightarrow>
          let i = resolve_index (length self_cards) i0 in
          if 0 \<le> i \<and> i < int (length self_cards)
          then (case get_scan self_cards rest of
                  Inl e \<Rightarrow> Inl e
                | Inr cs \<Rightarrow> Inr (self_cards ! nat i # cs))
          else Inl IndexError
      | _ \<Rightarrow> Inl TypeError)"

text \<open>A method that returns \<^verbatim>\<open>xs[0] if len(xs) == 1 else Deck(xs)\<close>.\<close>

definition card_or_deck :: "card list \<Rightarrow> pyval" where
  "card_or_deck xs = (case xs of [c] \<Rightarrow> VCard c | _ \<Rightarrow> VDeck xs)"

fun cards_of :: "pyval \<Rightarrow> card list" where
  "cards_of (VCard c) = [c]"
| "cards_of (VDeck cs) = cs"
| "cards_of v = []"

definition Deck_get :: "pyval list \<Rightarrow> card list \<Rightarrow> error + pyval" where
  "Deck_get indexes self_cards =
     (if indexes = [] then
        (if self_cards = [] then Inl IndexError else Inr (VCard (last self_cards)))
      else case get_scan self_cards (flatten_nested_collections indexes) of
             Inl e \<Rightarrow> Inl e
           | Inr retrieved_cards \<Rightarrow> Inr (card_or_deck retrieved_cards))"

text \<open>\<^verbatim>\<open>Deck.draw\<close>: \<^verbatim>\<open>get\<close>, then \<^verbatim>\<open>remove\<close> with the same arguments; the result is
  returned as it is when its class is exactly \<^verbatim>\<open>Card\<close> and wrapped in a new deck
  otherwise (a Joker, or a deck). The function returns the result and the new list.\<close>

definition Deck_draw :: "pyval list \<Rightarrow> card list \<Rightarrow> error + (pyval \<times> card list)" where
  "Deck_draw indexes self_cards =
     (case Deck_get indexes self_cards of
        Inl e \<Rightarrow> Inl e
      | Inr retrieved_cards \<Rightarrow>
          (case Deck_remove indexes self_cards of
             Inl e \<Rightarrow> Inl e
           | Inr cards' \<Rightarrow>
               if is_card retrieved_cards \<and> kind (the_card retrieved_cards) = CardT
               then Inr (retrieved_cards, cards')
               else (case Deck_init_args [retrieved_cards] of
                       Inl e \<Rightarrow> Inl e
                     | Inr cs \<Rightarrow> Inr (VDeck cs, cards'))))"

subsection \<open>Random sampling\<close>

text \<open>
  \<^verbatim>\<open>random.choice(xs)\<close> returns \<^verbatim>\<open>xs[k]\<close> for a position \<open>k\<close> below \<^verbatim>\<open>len(xs)\<close> that the
  generator picks. The generator is the parameter \<open>rnd\<close>, a stream of natural numbers,
  one per call; the position is the number reduced modulo the length, so every position
  can be picked and a statement for all \<open>rnd\<close> covers every run.
\<close>

definition choice :: "(nat \<Rightarrow> nat) \<Rightarrow> nat \<Rightarrow> 'a list \<Rightarrow> 'a" where
  "choice rnd k xs = xs ! (rnd k mod length xs)"

function get_random_loop ::
  "(nat \<Rightarrow> nat) \<Rightarrow> nat \<Rightarrow> int \<Rightarrow> card list \<Rightarrow> card list \<Rightarrow> error + card list" where
  "get_random_loop rnd k amount possible_cards cards =
     (if amount > 0 \<and> length possible_cards > 0 then
        (let card = choice rnd k possible_cards in
         case list_remove card possible_cards of
           Inl e \<Rightarrow> Inl e
         | Inr possible' \<Rightarrow>
             get_random_loop rnd (Suc k) (amount - 1) possible' (cards @ [card]))
      else Inr cards)"
  by pat_completeness auto
termination
  by (relation "measure (\<lambda>(rnd, k, amount, possible_cards, cards). nat amount)") auto

text \<open>\<^verbatim>\<open>Deck.get_random\<close> works on a copy of the list; it returns its result and the
  receiver's list.\<close>

definition Deck_get_random ::
  "(nat \<Rightarrow> nat) \<Rightarrow> int \<Rightarrow> card list \<Rightarrow> (error + pyval) \<times> card list" where
  "Deck_get_random rnd amount self_cards =
     (case get_random_loop rnd 0 amount self_cards [] of
        Inl e \<Rightarrow> (Inl e, self_cards)
      | Inr cards \<Rightarrow> (Inr (card_or_deck cards), self_cards))"

subsection \<open>Selection\<close>

fun is_exclusion :: "pyval \<Rightarrow> bool" where
  "is_exclusion (VStr s) = (s \<noteq> [] \<and> hd s = CHR ''!'')"
| "is_exclusion (VInt i) = (i < 0)"
| "is_exclusion v = False"

fun strip_exclusion :: "pyval \<Rightarrow> pyval" where
  "strip_exclusion (VStr s) = VStr (tl s)"
| "strip_exclusion (VInt i) = VInt (- i)"
| "strip_exclusion v = v"

text \<open>\<^verbatim>\<open>separate_exclusions\<close> walks the criteria from the last to the first, pops every
  exclusion and appends its positive form: the exclusions come out in reverse order,
  the criteria keep the inclusions in their order.\<close>

definition separate_exclusions :: "pyval list \<Rightarrow> pyval list \<times> pyval list" where
  "separate_exclusions criteria =
     (map strip_exclusion (filter is_exclusion (rev criteria)),
      filter (\<lambda>c. \<not> is_exclusion c) criteria)"

text \<open>\<^verbatim>\<open>[x] if type(x) in (int, str) else list(x)\<close>.\<close>

fun criteria_list :: "pyval \<Rightarrow> error + pyval list" where
  "criteria_list (VInt i) = Inr [VInt i]"
| "criteria_list (VStr s) = Inr [VStr s]"
| "criteria_list (VList xs) = Inr xs"
| "criteria_list (VTuple xs) = Inr xs"
| "criteria_list (VDeck cs) = Inr (map VCard cs)"
| "criteria_list v = Inl TypeError"

text \<open>The two \<^verbatim>\<open>get_test_card\<close> closures, as functions of the loop variable. A value
  that is not a table key and not an integer in range gives the black Joker when it
  equals \<^verbatim>\<open>"Joker"\<close> (ranks only) or \<open>0\<close> (\<^verbatim>\<open>False\<close> and \<^verbatim>\<open>0.0\<close> do), \<^verbatim>\<open>TypeError\<close> when
  it is neither an integer nor a string (or cannot be hashed for the set test), and
  \<^verbatim>\<open>ValueError\<close> otherwise.\<close>

definition black_joker :: card where
  "black_joker = \<lparr>kind = JokerT, rank = 0, suit = 0, color = False, face_card = True\<rparr>"

fun get_test_card_rank :: "pyval \<Rightarrow> error + card" where
  "get_test_card_rank (VStr s) =
     (if s \<in> set (map fst ranks_dict) then Card_init (VStr s) (VInt 1)
      else if s = ''Joker'' then Inr black_joker
      else Inl ValueError)"
| "get_test_card_rank (VInt i) =
     (if 1 \<le> i \<and> i \<le> 13 then Card_init (VInt i) (VInt 1)
      else if i = 0 then Inr black_joker
      else Inl ValueError)"
| "get_test_card_rank (VBool b) = (if \<not> b then Inr black_joker else Inl TypeError)"
| "get_test_card_rank (VFloat x) = (if x = 0 then Inr black_joker else Inl TypeError)"
| "get_test_card_rank v = Inl TypeError"

fun get_test_card_suit :: "pyval \<Rightarrow> error + card" where
  "get_test_card_suit (VStr s) =
     (if s \<in> set (map fst suits_dict) then Card_init (VInt 1) (VStr s)
      else Inl ValueError)"
| "get_test_card_suit (VInt i) =
     (if 1 \<le> i \<and> i \<le> 4 then Card_init (VInt 1) (VInt i)
      else if i = 0 then Inr black_joker
      else Inl ValueError)"
| "get_test_card_suit (VBool b) = (if \<not> b then Inr black_joker else Inl TypeError)"
| "get_test_card_suit (VFloat x) = (if x = 0 then Inr black_joker else Inl TypeError)"
| "get_test_card_suit v = Inl TypeError"

text \<open>One comprehension \<^verbatim>\<open>[card for card in selected if [not] card.same_x(get_test_card())]\<close>:
  the test card is built once per card, so nothing is raised on an empty list.\<close>

definition matching :: "(pyval \<Rightarrow> error + card) \<Rightarrow> (card \<Rightarrow> int) \<Rightarrow> bool \<Rightarrow> pyval
                          \<Rightarrow> card list \<Rightarrow> error + card list" where
  "matching get_test_card attr keep v selected =
     (if selected = [] then Inr []
      else case get_test_card v of
             Inl e \<Rightarrow> Inl e
           | Inr t \<Rightarrow> Inr (filter (\<lambda>card. (attr card = attr t) = keep) selected))"

fun apply_exclusions :: "(pyval \<Rightarrow> error + card) \<Rightarrow> (card \<Rightarrow> int) \<Rightarrow> pyval list
                          \<Rightarrow> card list \<Rightarrow> error + card list" where
  "apply_exclusions g attr [] selected = Inr selected"
| "apply_exclusions g attr (v # vs) selected =
     (case matching g attr False v selected of
        Inl e \<Rightarrow> Inl e
      | Inr selected' \<Rightarrow> apply_exclusions g attr vs selected')"

fun apply_inclusions :: "(pyval \<Rightarrow> error + card) \<Rightarrow> (card \<Rightarrow> int) \<Rightarrow> pyval list
                          \<Rightarrow> card list \<Rightarrow> card list \<Rightarrow> error + card list" where
  "apply_inclusions g attr [] selected filtered_cards = Inr filtered_cards"
| "apply_inclusions g attr (v # vs) selected filtered_cards =
     (case matching g attr True v selected of
        Inl e \<Rightarrow> Inl e
      | Inr m \<Rightarrow> apply_inclusions g attr vs selected (filtered_cards @ m))"

text \<open>One criterion family of \<^verbatim>\<open>Deck.select\<close> (the rank block and the suit block have the
  same shape): exclusions, then the inclusions that rebuild the working list from an
  empty one, then the \<^verbatim>\<open>del\<close> statement, which fails on the loop variable when neither
  loop ran.\<close>

definition select_stage :: "(pyval \<Rightarrow> error + card) \<Rightarrow> (card \<Rightarrow> int) \<Rightarrow> pyval
                              \<Rightarrow> card list \<Rightarrow> error + card list" where
  "select_stage g attr criterion selected =
     (case criterion of
        VNone \<Rightarrow> Inr selected
      | _ \<Rightarrow>
        (case criteria_list criterion of
           Inl e \<Rightarrow> Inl e
         | Inr crit \<Rightarrow>
             (case separate_exclusions crit of
                (exclusions, inclusions) \<Rightarrow>
                  (case apply_exclusions g attr exclusions selected of
                     Inl e \<Rightarrow> Inl e
                   | Inr selected' \<Rightarrow>
                       (case apply_inclusions g attr inclusions selected' [] of
                          Inl e \<Rightarrow> Inl e
                        | Inr filtered_cards \<Rightarrow>
                            if exclusions = [] \<and> inclusions = [] then Inl NameError
                            else Inr filtered_cards)))))"

definition select_color :: "pyval \<Rightarrow> card list \<Rightarrow> error + card list" where
  "select_color c selected =
     (case c of
        VNone \<Rightarrow> Inr selected
      | VStr s \<Rightarrow>
          if s \<noteq> ''Black'' \<and> s \<noteq> ''Red'' then Inl ValueError
          else Inr (filter (\<lambda>card. color card = (s = ''Red'')) selected)
      | VBool b \<Rightarrow> Inr (filter (\<lambda>card. color card = b) selected)
      | _ \<Rightarrow> Inl TypeError)"

definition select_face_card :: "pyval \<Rightarrow> card list \<Rightarrow> error + card list" where
  "select_face_card f selected =
     (case f of
        VNone \<Rightarrow> Inr selected
      | VBool b \<Rightarrow> Inr (filter (\<lambda>card. face_card card = b) selected)
      | _ \<Rightarrow> Inl TypeError)"

text \<open>\<^verbatim>\<open>Deck.select\<close> returns a new deck and leaves the receiver alone.\<close>

definition Deck_select :: "pyval \<Rightarrow> pyval \<Rightarrow> pyval \<Rightarrow> pyval \<Rightarrow> card list \<Rightarrow> error + card list" where
  "Deck_select rk st col fc self_cards =
     (case select_stage get_test_card_rank rank rk self_cards of
        Inl e \<Rightarrow> Inl e
      | Inr s1 \<Rightarrow>
          (case select_stage get_test_card_suit suit st s1 of
             Inl e \<Rightarrow> Inl e
           | Inr s2 \<Rightarrow>
               (case select_color col s2 of
                  Inl e \<Rightarrow> Inl e
                | Inr s3 \<Rightarrow>
                    (case select_face_card fc s3 of
                       Inl e \<Rightarrow> Inl e
                     | Inr s4 \<Rightarrow> Deck_init_args [VList (map VCard s4)]))))"

subsection \<open>Named values used in the statements\<close>

text \<open>The object \<^verbatim>\<open>Card(r, s)\<close> builds from two integers in range, the object
  \<^verbatim>\<open>Joker("Red")\<close> builds, and the card named by a pair of table keys.\<close>

definition std_card :: "int \<Rightarrow> int \<Rightarrow> card" where
  "std_card r s = \<lparr>kind = CardT, rank = r, suit = s, color = (s > 2), face_card = (r > 10)\<rparr>"

definition red_joker :: card where
  "red_joker = \<lparr>kind = JokerT, rank = 0, suit = 0, color = True, face_card = True\<rparr>"

definition card_named :: "string \<times> string \<Rightarrow> card" where
  "card_named p = std_card (the (map_of ranks_dict (snd p))) (the (map_of suits_dict (fst p)))"

text \<open>The standard deck for the iteration orders that follow the tables.\<close>

definition standard_deck :: "card list" where
  "standard_deck =
     map card_named (List.product (map fst suits_dict) (map fst ranks_dict))
       @ [black_joker, red_joker]"

text \<open>Every pair of a suit number and a rank number.\<close>

definition all_combinations :: "(int \<times> int) list" where
  "all_combinations = List.product [1, 2, 3, 4] [1, 2, 3, 4, 5, 6, 7, 8, 9, 10, 11, 12, 13]"

text \<open>A criterion that is a single exclusion of a rank: a negative integer whose
  positive form is a rank number, or an exclamation mark followed by a rank name.\<close>

fun scalar_rank_exclusion :: "pyval \<Rightarrow> bool" where
  "scalar_rank_exclusion (VInt i) = (- 13 \<le> i \<and> i \<le> - 1)"
| "scalar_rank_exclusion (VStr s) =
     (s \<noteq> [] \<and> hd s = CHR ''!'' \<and> tl s \<in> set (map fst ranks_dict))"
| "scalar_rank_exclusion v = False"

section \<open>Properties\<close>

subsection \<open>Shared facts\<close>

lemma Card_init_ints:
  "1 \<le> r \<Longrightarrow> r \<le> 13 \<Longrightarrow> 1 \<le> s \<Longrightarrow> s \<le> 4 \<Longrightarrow> Card_init (VInt r) (VInt s) = Inr (std_card r s)"
  by (simp add: Card_init_def std_card_def)

lemma card_eq_attrs: "card_eq a b = (attrs a = attrs b)"
  by (auto simp: card_eq_def Card_eq_def same_rank_def same_suit_def same_color_def attrs_def
      split: bool.splits)

lemma flatten_single_card [simp]: "flatten_nested_collections [VCard c] = [VCard c]"
  by (simp add: flatten_nested_collections_def)

lemma map_the_card_comp [simp]: "map (the_card \<circ> VCard) cs = cs"
  by (induction cs) simp_all

lemma map_the_card_VCard: "map the_card (map VCard cs) = cs"
  by simp

lemma list_all_is_card_VCard [simp]: "list_all is_card (map VCard cs)"
  by (simp add: list_all_iff)

lemma Deck_init_args_list [simp]: "Deck_init_args [VList (map VCard cs)] = Inr cs"
  by (simp add: Deck_init_args_def flatten_nested_collections_def)

lemma length_list_pop: "n < length xs \<Longrightarrow> length (list_pop n xs) = length xs - 1"
  by (simp add: list_pop_def)

lemma nths_cong_range:
  "(\<And>i. i < length xs \<Longrightarrow> (i \<in> A) = (i \<in> B)) \<Longrightarrow> nths xs A = nths xs B"
  unfolding nths_def
  by (rule arg_cong [where f = "map fst"], rule filter_cong) (auto simp: set_zip)

subsection \<open>Comparison with a value that is not a card\<close>

text \<open>
  C2. Every rich comparison of a card (or Joker) with a value that is neither a Card nor
  a Joker raises. The class of the error is \<^verbatim>\<open>ValueError\<close>, as each method's docstring
  says, not \<^verbatim>\<open>TypeError\<close>.
\<close>

theorem compare_non_card_raises_ValueError:
  "\<not> is_card v \<Longrightarrow>
     Card_lt aw1 c v = Inl ValueError \<and> Card_le aw1 c v = Inl ValueError \<and>
     Card_gt aw1 c v = Inl ValueError \<and> Card_ge aw1 c v = Inl ValueError \<and>
     Card_eq c v = Inl ValueError"
  by (simp add: Card_lt_def Card_le_def Card_gt_def Card_ge_def Card_eq_def)

theorem compare_non_card_raises_ValueError_witness:
  "\<not> is_card (VInt 5) \<and>
     Card_lt False red_joker (VInt 5) = Inl ValueError \<and>
     Card_le False red_joker (VInt 5) = Inl ValueError \<and>
     Card_gt False red_joker (VInt 5) = Inl ValueError \<and>
     Card_ge False red_joker (VInt 5) = Inl ValueError \<and>
     Card_eq red_joker (VInt 5) = Inl ValueError"
  using compare_non_card_raises_ValueError [of "VInt 5" False red_joker] by simp

text \<open>The claim as stated fails: comparing the ace of clubs with the integer 5 does not
  raise \<^verbatim>\<open>TypeError\<close>.\<close>

theorem compare_non_card_not_TypeError:
  "Card_lt default_ace_worth_1 (std_card 1 1) (VInt 5) \<noteq> Inl TypeError"
  by (simp add: Card_lt_def)

subsection \<open>Removal\<close>

text \<open>
  C4. On the deck \<^verbatim>\<open>[Card(1,1), Card(2,1)]\<close> the call \<^verbatim>\<open>remove(0, Card(1,1))\<close> passes the
  partition (index 0 and the card, which is present), pops position 0, skips the card
  in the second loop because it is no longer in the list, raises nothing and leaves
  \<^verbatim>\<open>[Card(2,1)]\<close>.
\<close>

theorem remove_index_and_same_card:
  "(case (Card_init (VInt 1) (VInt 1), Card_init (VInt 2) (VInt 1)) of
      (Inr c11, Inr c21) \<Rightarrow>
        (case Deck_init_args [VCard c11, VCard c21] of
           Inr deck \<Rightarrow>
             remove_scan deck (flatten_nested_collections [VInt 0, VCard c11]) [] []
               = Inr ([0], [c11])
             \<and> pop_indexes (sort_reverse [0]) deck = [c21]
             \<and> remove_cards [c11] [c21] = Inr [c21]
             \<and> Deck_remove [VInt 0, VCard c11] deck = Inr [c21]
         | Inl e \<Rightarrow> False)
    | _ \<Rightarrow> False)"
  by (simp add: Card_init_def Deck_init_args_def flatten_nested_collections_def Deck_remove_def
      resolve_index_def py_in_def card_eq_def Card_eq_def same_rank_def same_suit_def
      same_color_def sort_reverse_def list_pop_def ranks_dict_def suits_dict_def)

text \<open>Popping position \<open>n\<close> when every other position to drop lies below it.\<close>

lemma nths_list_pop:
  assumes n: "n < length xs" and S: "\<And>k. k \<in> S \<Longrightarrow> k < n"
  shows "nths (list_pop n xs) (- S) = nths xs (- insert n S)"
proof -
  let ?a = "take n xs" and ?b = "drop (Suc n) xs"
  have la: "length ?a = n" using n by simp
  have xs: "xs = ?a @ xs ! n # ?b" using n by (simp add: id_take_nth_drop)
  have tail1: "nths ?b {j. j + n \<in> - S} = ?b"
    by (rule nths_all) (use S in fastforce)
  have tail2: "nths ?b {j. Suc j + n \<in> - insert n S} = ?b"
    by (rule nths_all) (use S in fastforce)
  have head: "nths ?a (- insert n S) = nths ?a (- S)"
    by (rule nths_cong_range) (use la in auto)
  have "nths (list_pop n xs) (- S) = nths ?a (- S) @ ?b"
    unfolding list_pop_def by (simp only: nths_append la tail1)
  moreover have "nths (?a @ xs ! n # ?b) (- insert n S) = nths ?a (- S) @ ?b"
    using tail2 by (simp only: nths_append nths_Cons la head) simp
  ultimately show ?thesis using xs by simp
qed

text \<open>The pop loop on a strictly descending list of valid positions removes exactly
  those positions.\<close>

lemma pop_indexes_descending:
  "sorted (rev ds) \<Longrightarrow> distinct ds \<Longrightarrow> (\<And>d. d \<in> set ds \<Longrightarrow> 0 \<le> d \<and> d < int (length xs))
   \<Longrightarrow> pop_indexes ds xs = nths xs (- nat ` set ds)"
proof (induction ds arbitrary: xs)
  case Nil
  then show ?case by (simp add: nths_all)
next
  case (Cons d ds)
  have d: "0 \<le> d" "d < int (length xs)" using Cons.prems(3) by auto
  have below: "\<And>x. x \<in> set ds \<Longrightarrow> 0 \<le> x \<and> x < d"
  proof -
    fix x assume x: "x \<in> set ds"
    have "x \<le> d" using Cons.prems(1) x by (auto simp: sorted_append)
    moreover have "x \<noteq> d" using Cons.prems(2) x by auto
    ultimately show "0 \<le> x \<and> x < d" using Cons.prems(3) x by auto
  qed
  let ?xs' = "list_pop (nat d) xs"
  have len: "length ?xs' = length xs - 1" using d by (simp add: length_list_pop)
  have ih: "pop_indexes ds ?xs' = nths ?xs' (- nat ` set ds)"
  proof (rule Cons.IH)
    show "sorted (rev ds)" using Cons.prems(1) by (simp add: sorted_append)
    show "distinct ds" using Cons.prems(2) by simp
    fix x assume "x \<in> set ds"
    then show "0 \<le> x \<and> x < int (length ?xs')" using below d len by fastforce
  qed
  have "nths ?xs' (- nat ` set ds) = nths xs (- insert (nat d) (nat ` set ds))"
    by (rule nths_list_pop) (use d below in fastforce)+
  then show ?case using d ih by simp
qed

text \<open>The partition pass on valid integers: it succeeds, collects the resolved indices
  and keeps them free of repetitions.\<close>

lemma remove_scan_ints:
  "(\<And>i. i \<in> set is \<Longrightarrow> - int (length deck) \<le> i \<and> i < int (length deck)) \<Longrightarrow>
   \<exists>idxs'. remove_scan deck (map VInt is) idxs cs = Inr (idxs', cs)
      \<and> set idxs' = set idxs \<union> resolve_index (length deck) ` set is
      \<and> (distinct idxs \<longrightarrow> distinct idxs')"
proof (induction "is" arbitrary: idxs)
  case Nil
  then show ?case by simp
next
  case (Cons i "is")
  let ?e = "resolve_index (length deck) i"
  have r: "0 \<le> ?e \<and> ?e < int (length deck)"
    using Cons.prems [of i] by (auto simp: resolve_index_def)
  let ?idxs = "if ?e \<in> set idxs then idxs else idxs @ [?e]"
  obtain idxs' where h: "remove_scan deck (map VInt is) ?idxs cs = Inr (idxs', cs)"
      "set idxs' = set ?idxs \<union> resolve_index (length deck) ` set is"
      "distinct ?idxs \<longrightarrow> distinct idxs'"
    using Cons.IH [of ?idxs] Cons.prems by auto
  have "remove_scan deck (map VInt (i # is)) idxs cs = Inr (idxs', cs)"
    using r h(1) by (simp add: Let_def)
  moreover have "set idxs' = set idxs \<union> resolve_index (length deck) ` set (i # is)"
    using h(2) by auto
  moreover have "distinct idxs \<longrightarrow> distinct idxs'" using h(3) by auto
  ultimately show ?case by blast
qed

text \<open>
  C5. When the flattened arguments of \<^verbatim>\<open>remove\<close> are integers \<open>is\<close>, each a valid index
  of the deck (negative forms allowed, any order, repetitions allowed), the call
  succeeds and the deck keeps exactly the cards whose position is not one of the
  resolved indices, in their original order: \<open>nths deck A\<close> is the sublist of the
  elements whose position lies in \<open>A\<close>.
\<close>

theorem remove_valid_indexes:
  assumes fl: "flatten_nested_collections args = map VInt is"
    and valid: "list_all (\<lambda>i. - int (length deck) \<le> i \<and> i < int (length deck)) is"
  shows "Deck_remove args deck
         = Inr (nths deck (- (\<lambda>i. nat (resolve_index (length deck) i)) ` set is))"
proof (cases "args = []")
  case True
  then have "is = []" using fl by (simp add: flatten_nested_collections_def)
  then show ?thesis using True by (simp add: Deck_remove_def nths_all)
next
  case False
  have ok: "\<forall>i \<in> set is. - int (length deck) \<le> i \<and> i < int (length deck)"
    using valid by (simp add: list_all_iff)
  obtain idxs where h: "remove_scan deck (map VInt is) [] [] = Inr (idxs, [])"
      "set idxs = resolve_index (length deck) ` set is" "distinct idxs"
    using remove_scan_ints [of "is" deck "[]" "[]"] ok by auto
  have rng: "\<And>d. d \<in> set (sort_reverse idxs) \<Longrightarrow> 0 \<le> d \<and> d < int (length deck)"
    using h(2) ok by (auto simp: sort_reverse_def resolve_index_def)
  have "pop_indexes (sort_reverse idxs) deck = nths deck (- nat ` set (sort_reverse idxs))"
    by (rule pop_indexes_descending) (use h(3) rng in \<open>auto simp: sort_reverse_def\<close>)
  moreover have "nat ` set (sort_reverse idxs)
                 = (\<lambda>i. nat (resolve_index (length deck) i)) ` set is"
    using h(2) by (auto simp: sort_reverse_def)
  ultimately show ?thesis using False fl h(1) by (simp add: Deck_remove_def)
qed

theorem remove_valid_indexes_witness:
  "flatten_nested_collections [VInt 1, VList [VInt (- 1), VInt 1], VTuple [VInt (- 4)]]
       = map VInt [1, - 1, 1, - 4]
   \<and> list_all (\<lambda>i. - int (length [std_card 1 1, std_card 2 1, std_card 3 1, red_joker]) \<le> i
                      \<and> i < int (length [std_card 1 1, std_card 2 1, std_card 3 1, red_joker]))
        [1, - 1, 1, - 4]
   \<and> Deck_remove [VInt 1, VList [VInt (- 1), VInt 1], VTuple [VInt (- 4)]]
        [std_card 1 1, std_card 2 1, std_card 3 1, red_joker] = Inr [std_card 3 1]"
  using remove_valid_indexes [of "[VInt 1, VList [VInt (- 1), VInt 1], VTuple [VInt (- 4)]]"
      "[1, - 1, 1, - 4]" "[std_card 1 1, std_card 2 1, std_card 3 1, red_joker]"]
  by (simp add: flatten_nested_collections_def resolve_index_def nths_Cons)

subsection \<open>Subscript access with a slice\<close>

text \<open>
  C6. On a non-empty deck, \<^verbatim>\<open>deck[start:stop]\<close> with integer bounds that pass both range
  checks raises \<^verbatim>\<open>TypeError\<close>: the list slice is passed to \<^verbatim>\<open>Card\<close> as its only
  argument, and the call is rejected. No list of cards is returned.
\<close>

theorem getitem_slice_raises_TypeError:
  "cards \<noteq> [] \<Longrightarrow> - int (length cards) \<le> start \<Longrightarrow> start < int (length cards)
   \<Longrightarrow> - int (length cards) \<le> stop \<Longrightarrow> stop \<le> int (length cards)
   \<Longrightarrow> Deck_getitem (VSlice (Some start) (Some stop) None) cards = Inl TypeError"
  by (simp add: Deck_getitem_def resolve_index_def list_slice_def Let_def)

theorem getitem_slice_raises_TypeError_witness:
  "[std_card 1 1, std_card 2 1, red_joker] \<noteq> []
   \<and> - int (length [std_card 1 1, std_card 2 1, red_joker]) \<le> - 3
   \<and> - 3 < int (length [std_card 1 1, std_card 2 1, red_joker])
   \<and> - int (length [std_card 1 1, std_card 2 1, red_joker]) \<le> 2
   \<and> 2 \<le> int (length [std_card 1 1, std_card 2 1, red_joker])
   \<and> Deck_getitem (VSlice (Some (- 3)) (Some 2) None) [std_card 1 1, std_card 2 1, red_joker]
       = Inl TypeError"
  using getitem_slice_raises_TypeError
    [of "[std_card 1 1, std_card 2 1, red_joker]" "- 3" 2]
  by simp

subsection \<open>Insertion before the last card\<close>

lemma slice_pos_minus_one: "xs \<noteq> [] \<Longrightarrow> slice_pos (length xs) (- 1) = length xs - 1"
  by (cases xs) (auto simp: slice_pos_def)

lemma take_drop_last:
  assumes "xs \<noteq> []"
  shows "take (length xs - 1) xs = butlast xs" and "drop (length xs - 1) xs = [last xs]"
proof -
  have e: "xs = butlast xs @ [last xs]" using assms by simp
  have l: "length (butlast xs) = length xs - 1" by simp
  show "take (length xs - 1) xs = butlast xs"
    by (metis e l append_eq_conv_conj)
  show "drop (length xs - 1) xs = [last xs]"
    by (metis e l append_eq_conv_conj)
qed

text \<open>
  C7. On a non-empty deck, \<^verbatim>\<open>add(cards_to_add, index=-1)\<close> with arguments that flatten to
  the cards \<open>batch\<close> yields the deck without its last card, then the batch in its own
  order, then the last card.
\<close>

theorem add_before_last:
  assumes ne: "self_cards \<noteq> []"
    and fl: "flatten_nested_collections cards_to_add = map VCard batch"
  shows "Deck_add cards_to_add (VInt (- 1)) self_cards
         = Inr (butlast self_cards @ batch @ [last self_cards])"
proof (cases "cards_to_add = []")
  case True
  with fl have "batch = []" by (simp add: flatten_nested_collections_def)
  with True ne show ?thesis by (simp add: Deck_add_def)
next
  case False
  then show ?thesis using ne fl take_drop_last [OF ne]
    by (simp add: Deck_add_def Let_def slice_insert_def slice_pos_minus_one)
qed

theorem add_before_last_witness:
  "[std_card 1 1, std_card 2 1, std_card 3 1] \<noteq> []
   \<and> flatten_nested_collections [VList [VCard red_joker, VCard black_joker]]
       = map VCard [red_joker, black_joker]
   \<and> Deck_add [VList [VCard red_joker, VCard black_joker]] (VInt (- 1))
        [std_card 1 1, std_card 2 1, std_card 3 1]
       = Inr [std_card 1 1, std_card 2 1, red_joker, black_joker, std_card 3 1]"
  using add_before_last [of "[std_card 1 1, std_card 2 1, std_card 3 1]"
      "[VList [VCard red_joker, VCard black_joker]]" "[red_joker, black_joker]"]
  by (simp add: flatten_nested_collections_def)

subsection \<open>Sorting by rank\<close>

text \<open>
  C8. With the initial Ace-high configuration, \<^verbatim>\<open>sort_by_rank\<close> on
  \<^verbatim>\<open>Deck(Card(1,1), Joker("Red"), Card(10,2), Card("Queen",1))\<close> gives the red Joker, the
  ten, the queen and the ace, in this order.
\<close>

theorem sort_by_rank_scenario:
  "(case (Card_init (VInt 1) (VInt 1), Joker_init (VStr ''Red''),
          Card_init (VInt 10) (VInt 2), Card_init (VStr ''Queen'') (VInt 1)) of
      (Inr a, Inr j, Inr t, Inr q) \<Rightarrow>
        (case Deck_init_args [VCard a, VCard j, VCard t, VCard q] of
           Inr deck \<Rightarrow> sort_by_rank default_ace_worth_1 deck = [j, t, q, a]
         | Inl e \<Rightarrow> False)
    | _ \<Rightarrow> False)"
  by (simp add: Card_init_def Joker_init_def Deck_init_args_def flatten_nested_collections_def
      sort_by_rank_def default_ace_worth_1_def get_ace_value_def ranks_dict_def suits_dict_def)

subsection \<open>Drawing a card and putting it back\<close>

lemma draw_single:
  assumes i: "0 \<le> i" "i < int (length deck)"
  shows "Deck_draw [VInt i] deck
         = Inr (if kind (deck ! nat i) = CardT then VCard (deck ! nat i)
                else VDeck [deck ! nat i], list_pop (nat i) deck)"
  using i
  by (simp add: Deck_draw_def Deck_get_def Deck_remove_def flatten_nested_collections_def
      resolve_index_def card_or_deck_def sort_reverse_def Deck_init_args_def Let_def)

lemma add_single_at:
  assumes i: "0 \<le> i" "i < int (length deck)"
    and r: "r = VCard (deck ! nat i) \<or> r = VDeck [deck ! nat i]"
  shows "Deck_add [r] (VInt i) (list_pop (nat i) deck) = Inr deck"
proof -
  let ?n = "nat i"
  have n: "?n < length deck" using i by simp
  have len: "length (list_pop ?n deck) = length deck - 1" using n by (rule length_list_pop)
  have fl: "flatten_nested_collections [r] = [VCard (deck ! ?n)]"
    using r by (auto simp: flatten_nested_collections_def)
  have pos: "slice_pos (length (list_pop ?n deck)) i = ?n"
    using i n len by (simp add: slice_pos_def)
  have tk: "take ?n (list_pop ?n deck) = take ?n deck"
    using n by (simp add: list_pop_def)
  have dr: "drop ?n (list_pop ?n deck) = drop (Suc ?n) deck"
    using n by (simp add: list_pop_def)
  have "slice_insert i [deck ! ?n] (list_pop ?n deck) = deck"
    unfolding slice_insert_def pos tk dr using n by (simp add: id_take_nth_drop [symmetric])
  moreover have "\<not> (i < - int (length (list_pop ?n deck)) \<or> i > int (length (list_pop ?n deck)))"
    using i len by auto
  ultimately show ?thesis using fl by (simp add: Deck_add_def Let_def)
qed

text \<open>
  C3. For every deck and every index \<open>i\<close> with \<open>0 \<le> i < len\<close>: \<^verbatim>\<open>draw(i)\<close> succeeds,
  and \<^verbatim>\<open>add\<close> of what it returned, at \<^verbatim>\<open>index=i\<close>, on the deck it left, succeeds and gives
  back the original list. (A negative index is resolved against the shorter deck by
  \<^verbatim>\<open>add\<close>, so there the card comes back one position too early; see the counterexample.)
\<close>

theorem draw_then_add_restores:
  assumes "0 \<le> i" and "i < int (length deck)"
  shows "(case Deck_draw [VInt i] deck of
            Inl e \<Rightarrow> False
          | Inr (drawn, deck') \<Rightarrow> Deck_add [drawn] (VInt i) deck' = Inr deck)"
  using assms by (simp add: draw_single add_single_at)

theorem draw_then_add_restores_witness:
  "0 \<le> (1::int) \<and> 1 < int (length [std_card 1 1, red_joker, std_card 3 1])
   \<and> (case Deck_draw [VInt 1] [std_card 1 1, red_joker, std_card 3 1] of
         Inl e \<Rightarrow> False
       | Inr (drawn, deck') \<Rightarrow>
           Deck_add [drawn] (VInt 1) deck' = Inr [std_card 1 1, red_joker, std_card 3 1])"
  using draw_then_add_restores [of 1 "[std_card 1 1, red_joker, std_card 3 1]"]
  by simp

text \<open>With the valid index \<open>-1\<close> the round trip fails: the last card of three comes back
  in the middle.\<close>

theorem draw_then_add_negative_index:
  "Deck_draw [VInt (- 1)] [std_card 1 1, std_card 2 1, std_card 3 1]
     = Inr (VCard (std_card 3 1), [std_card 1 1, std_card 2 1])
   \<and> Deck_add [VCard (std_card 3 1)] (VInt (- 1)) [std_card 1 1, std_card 2 1]
     = Inr [std_card 1 1, std_card 3 1, std_card 2 1]
   \<and> [std_card 1 1, std_card 3 1, std_card 2 1] \<noteq> [std_card 1 1, std_card 2 1, std_card 3 1]"
  by (simp add: Deck_draw_def Deck_get_def Deck_remove_def flatten_nested_collections_def
      resolve_index_def card_or_deck_def sort_reverse_def Deck_init_args_def Let_def
      Deck_add_def slice_insert_def slice_pos_def list_pop_def std_card_def)

subsection \<open>Random sampling\<close>

lemma list_remove_present:
  "\<exists>x \<in> set xs. attrs x = attrs c \<Longrightarrow>
   \<exists>ys. list_remove c xs = Inr ys \<and> Suc (length ys) = length xs
      \<and> add_mset (attrs c) (mset (map attrs ys)) = mset (map attrs xs)
      \<and> set ys \<subseteq> set xs"
proof (induction xs)
  case Nil
  then show ?case by simp
next
  case (Cons x xs)
  show ?case
  proof (cases "attrs x = attrs c")
    case True
    then show ?thesis by (auto simp: card_eq_attrs)
  next
    case False
    then have "\<exists>x \<in> set xs. attrs x = attrs c" using Cons.prems by auto
    then obtain ys where "list_remove c xs = Inr ys" "Suc (length ys) = length xs"
        "add_mset (attrs c) (mset (map attrs ys)) = mset (map attrs xs)" "set ys \<subseteq> set xs"
      using Cons.IH by blast
    then show ?thesis using False by (auto simp: card_eq_attrs)
  qed
qed

lemma choice_in_set: "xs \<noteq> [] \<Longrightarrow> choice rnd k xs \<in> set xs"
  by (simp add: choice_def)

text \<open>The loop, when the requested amount covers the whole pool: it ends without an
  error, and the result is the accumulator followed by the pool in some order.\<close>

lemma get_random_loop_all:
  "int (length possible) \<le> amount \<Longrightarrow>
   \<exists>res. get_random_loop rnd k amount possible cards = Inr res
      \<and> length res = length cards + length possible
      \<and> mset (map attrs res) = mset (map attrs cards) + mset (map attrs possible)
      \<and> set res \<subseteq> set cards \<union> set possible"
proof (induction "length possible" arbitrary: possible cards k amount)
  case 0
  then show ?case by simp
next
  case (Suc n)
  let ?card = "choice rnd k possible"
  have ne: "possible \<noteq> []" using Suc.hyps(2) by auto
  have pos: "amount > 0" using Suc.prems Suc.hyps(2) by simp
  have mem: "?card \<in> set possible" using ne by (rule choice_in_set)
  then have "\<exists>x \<in> set possible. attrs x = attrs ?card" by blast
  then obtain ys where ys: "list_remove ?card possible = Inr ys"
      "Suc (length ys) = length possible"
      "add_mset (attrs ?card) (mset (map attrs ys)) = mset (map attrs possible)"
      "set ys \<subseteq> set possible"
    using list_remove_present by blast
  have n: "n = length ys" using ys(2) Suc.hyps(2) by simp
  have le: "int (length ys) \<le> amount - 1" using Suc.prems ys(2) by simp
  obtain res where res: "get_random_loop rnd (Suc k) (amount - 1) ys (cards @ [?card]) = Inr res"
      "length res = length (cards @ [?card]) + length ys"
      "mset (map attrs res) = mset (map attrs (cards @ [?card])) + mset (map attrs ys)"
      "set res \<subseteq> set (cards @ [?card]) \<union> set ys"
    using Suc.hyps(1) [OF n le] by blast
  have step: "get_random_loop rnd k amount possible cards
              = get_random_loop rnd (Suc k) (amount - 1) ys (cards @ [?card])"
    using pos ne ys(1) by (subst get_random_loop.simps) (simp add: Let_def)
  have "length res = length cards + length possible" using res(2) ys(2) by simp
  moreover have "mset (map attrs res) = mset (map attrs cards) + mset (map attrs possible)"
    using res(3) ys(3) by simp
  moreover have "set res \<subseteq> set cards \<union> set possible" using res(4) ys(4) mem by auto
  ultimately show ?case using step res(1) by simp
qed

lemma cards_of_card_or_deck [simp]: "cards_of (card_or_deck xs) = xs"
  by (cases xs rule: list.exhaust; cases "tl xs") (auto simp: card_or_deck_def split: list.splits)

text \<open>
  C9. For every deck, every generator and every amount that is at least the size of
  the deck, \<^verbatim>\<open>get_random(amount)\<close> raises nothing, leaves the receiver's list as it was,
  and returns as many cards as the deck has (\<open>min amount len\<close>), each of them an object
  of the deck, which together are a permutation of the deck. Cards are counted as the
  cards' own equality counts them, by rank, suit, color and face-card flag (\<open>attrs\<close>):
  \<^verbatim>\<open>list.remove\<close> takes the first equal card out of the pool, not necessarily the
  chosen object.
\<close>

theorem get_random_all:
  assumes "int (length deck) \<le> amount"
  shows "\<exists>r. Deck_get_random rnd amount deck = (Inr r, deck)
           \<and> int (length (cards_of r)) = min amount (int (length deck))
           \<and> mset (map attrs (cards_of r)) = mset (map attrs deck)
           \<and> set (cards_of r) \<subseteq> set deck"
proof -
  obtain res where res: "get_random_loop rnd 0 amount deck [] = Inr res"
      "length res = length ([]::card list) + length deck"
      "mset (map attrs res) = mset (map attrs ([]::card list)) + mset (map attrs deck)"
      "set res \<subseteq> set ([]::card list) \<union> set deck"
    using get_random_loop_all [OF assms, of rnd 0 "[]"] by blast
  then show ?thesis using assms by (simp add: Deck_get_random_def)
qed

theorem get_random_all_witness:
  "int (length [std_card 1 1, red_joker, std_card 3 1]) \<le> 5
   \<and> (\<exists>r. Deck_get_random (\<lambda>k. k + 1) 5 [std_card 1 1, red_joker, std_card 3 1]
             = (Inr r, [std_card 1 1, red_joker, std_card 3 1])
           \<and> int (length (cards_of r))
               = min 5 (int (length [std_card 1 1, red_joker, std_card 3 1]))
           \<and> mset (map attrs (cards_of r))
               = mset (map attrs [std_card 1 1, red_joker, std_card 3 1])
           \<and> set (cards_of r) \<subseteq> set [std_card 1 1, red_joker, std_card 3 1])"
  using get_random_all [of "[std_card 1 1, red_joker, std_card 3 1]" 5 "\<lambda>k. k + 1"]
  by simp

subsection \<open>The standard deck\<close>

lemma suits_dict_key:
  "s \<in> set (map fst suits_dict) \<Longrightarrow> \<exists>n. map_of suits_dict s = Some n \<and> 1 \<le> n \<and> n \<le> 4"
  by (auto simp: suits_dict_def)

lemma ranks_dict_key:
  "r \<in> set (map fst ranks_dict) \<Longrightarrow> \<exists>n. map_of ranks_dict r = Some n \<and> 1 \<le> n \<and> n \<le> 13"
  by (auto simp: ranks_dict_def)

lemma suits_dict_inj:
  "s \<in> set (map fst suits_dict) \<Longrightarrow> s' \<in> set (map fst suits_dict)
   \<Longrightarrow> the (map_of suits_dict s) = the (map_of suits_dict s') \<Longrightarrow> s = s'"
  by (auto simp: suits_dict_def)

lemma ranks_dict_inj:
  "r \<in> set (map fst ranks_dict) \<Longrightarrow> r' \<in> set (map fst ranks_dict)
   \<Longrightarrow> the (map_of ranks_dict r) = the (map_of ranks_dict r') \<Longrightarrow> r = r'"
  by (auto simp: ranks_dict_def)

lemma suits_dict_value:
  "1 \<le> n \<Longrightarrow> n \<le> 4 \<Longrightarrow> \<exists>s \<in> set (map fst suits_dict). the (map_of suits_dict s) = n"
proof -
  assume "1 \<le> n" "n \<le> 4"
  then have "n = 1 \<or> n = 2 \<or> n = 3 \<or> n = 4" by arith
  then show ?thesis by (auto simp: suits_dict_def)
qed

lemma ranks_dict_value:
  "1 \<le> n \<Longrightarrow> n \<le> 13 \<Longrightarrow> \<exists>r \<in> set (map fst ranks_dict). the (map_of ranks_dict r) = n"
proof -
  assume "1 \<le> n" "n \<le> 13"
  then have "n = 1 \<or> n = 2 \<or> n = 3 \<or> n = 4 \<or> n = 5 \<or> n = 6 \<or> n = 7 \<or> n = 8 \<or> n = 9
             \<or> n = 10 \<or> n = 11 \<or> n = 12 \<or> n = 13" by arith
  then show ?thesis by (auto simp: ranks_dict_def)
qed

lemma Card_init_names:
  assumes "s \<in> set (map fst suits_dict)" and "r \<in> set (map fst ranks_dict)"
  shows "Card_init (VStr r) (VStr s) = Inr (card_named (s, r))"
proof -
  obtain sn where sn: "map_of suits_dict s = Some sn" "1 \<le> sn" "sn \<le> 4"
    using suits_dict_key [OF assms(1)] by blast
  obtain rn where rn: "map_of ranks_dict r = Some rn" "1 \<le> rn" "rn \<le> 13"
    using ranks_dict_key [OF assms(2)] by blast
  show ?thesis using sn rn by (simp add: Card_init_def card_named_def std_card_def)
qed

lemma map_result_all:
  "(\<And>x. x \<in> set xs \<Longrightarrow> f x = Inr (g x)) \<Longrightarrow> map_result f xs = Inr (map g xs)"
  by (induction xs) simp_all

lemma card_named_inj:
  "inj_on card_named (set (map fst suits_dict) \<times> set (map fst ranks_dict))"
proof (rule inj_onI)
  fix p q
  assume p: "p \<in> set (map fst suits_dict) \<times> set (map fst ranks_dict)"
    and q: "q \<in> set (map fst suits_dict) \<times> set (map fst ranks_dict)"
    and e: "card_named p = card_named q"
  from e have "the (map_of ranks_dict (snd p)) = the (map_of ranks_dict (snd q))"
      and "the (map_of suits_dict (fst p)) = the (map_of suits_dict (fst q))"
    by (simp_all add: card_named_def std_card_def)
  then have "snd p = snd q" and "fst p = fst q"
    using p q ranks_dict_inj [of "snd p" "snd q"] suits_dict_inj [of "fst p" "fst q"]
    by (auto simp: mem_Times_iff)
  then show "p = q" by (simp add: prod_eq_iff)
qed

lemma generate_standard_deck_eq:
  assumes "iteration_of suits_dict suit_iter" and "iteration_of ranks_dict rank_iter"
  shows "generate_standard_deck suit_iter rank_iter
         = Inr (map card_named (List.product suit_iter rank_iter) @ [black_joker, red_joker])"
proof -
  have "map_result (\<lambda>(s, r). Card_init (VStr r) (VStr s)) (List.product suit_iter rank_iter)
        = Inr (map card_named (List.product suit_iter rank_iter))"
  proof (rule map_result_all)
    fix x assume "x \<in> set (List.product suit_iter rank_iter)"
    then have "fst x \<in> set suit_iter" "snd x \<in> set rank_iter"
      by (auto simp: mem_Times_iff)
    then have "fst x \<in> set (map fst suits_dict)" "snd x \<in> set (map fst ranks_dict)"
      using assms unfolding iteration_of_def by blast+
    then have "Card_init (VStr (snd x)) (VStr (fst x)) = Inr (card_named (fst x, snd x))"
      by (rule Card_init_names)
    then show "(case x of (s, r) \<Rightarrow> Card_init (VStr r) (VStr s)) = Inr (card_named x)"
      by (simp add: case_prod_beta)
  qed
  then show ?thesis
    by (simp add: generate_standard_deck_def Joker_init_def black_joker_def red_joker_def)
qed

lemma count_named_cards:
  assumes si: "iteration_of suits_dict suit_iter" and ri: "iteration_of ranks_dict rank_iter"
    and r: "1 \<le> r" "r \<le> 13" and s: "1 \<le> s" "s \<le> 4"
  shows "count_list (map card_named (List.product suit_iter rank_iter)) (std_card r s) = 1"
proof -
  let ?ps = "List.product suit_iter rank_iter"
  have sets: "set ?ps = set (map fst suits_dict) \<times> set (map fst ranks_dict)"
    using si ri by (simp add: iteration_of_def)
  have "distinct ?ps" using si ri by (simp add: iteration_of_def distinct_product)
  then have d: "distinct (map card_named ?ps)"
    using card_named_inj sets by (simp add: distinct_map)
  obtain sn where sn: "sn \<in> set (map fst suits_dict)" "the (map_of suits_dict sn) = s"
    using suits_dict_value [OF s] by blast
  obtain rn where rn: "rn \<in> set (map fst ranks_dict)" "the (map_of ranks_dict rn) = r"
    using ranks_dict_value [OF r] by blast
  have "card_named (sn, rn) = std_card r s" using sn(2) rn(2) by (simp add: card_named_def)
  moreover have "(sn, rn) \<in> set ?ps" using sn(1) rn(1) sets by simp
  ultimately have "std_card r s \<in> set (map card_named ?ps)" by force
  then show ?thesis using d by (simp add: distinct_count_atmost_1 flip: count_mset)
qed

text \<open>
  C10. A deck built with no argument holds the 52 cards of the 4 suits and 13 ranks, each
  exactly once, followed by the black Joker and the red Joker: 54 cards. The 52 cards
  come suit by suit, the ranks within a suit, in the orders in which the two key sets
  are iterated. The source does not fix these orders, so the enumeration order is the
  same only for constructions under the same iteration orders; the contents and the
  place of the Jokers are the same under all of them.
\<close>

theorem standard_deck_contents:
  assumes si: "iteration_of suits_dict suit_iter" and ri: "iteration_of ranks_dict rank_iter"
  shows "\<exists>cs. Deck_init suit_iter rank_iter [] = Inr (cs @ [black_joker, red_joker])
           \<and> cs = map card_named (List.product suit_iter rank_iter)
           \<and> length cs = 52
           \<and> length (cs @ [black_joker, red_joker]) = 54
           \<and> list_all (\<lambda>(s, r). count_list (cs @ [black_joker, red_joker]) (std_card r s) = 1)
                all_combinations
           \<and> count_list (cs @ [black_joker, red_joker]) black_joker = 1
           \<and> count_list (cs @ [black_joker, red_joker]) red_joker = 1"
proof -
  let ?cs = "map card_named (List.product suit_iter rank_iter)"
  have eq: "Deck_init suit_iter rank_iter [] = Inr (?cs @ [black_joker, red_joker])"
    using generate_standard_deck_eq [OF si ri] by (simp add: Deck_init_def)
  have "length suit_iter = card (set (map fst suits_dict))"
    using si by (metis distinct_card iteration_of_def)
  then have ls: "length suit_iter = 4" by (simp add: suits_dict_def)
  have "length rank_iter = card (set (map fst ranks_dict))"
    using ri by (metis distinct_card iteration_of_def)
  then have lr: "length rank_iter = 13" by (simp add: ranks_dict_def)
  have len: "length ?cs = 52" using ls lr by simp
  have nj: "\<And>c. c \<in> set ?cs \<Longrightarrow> kind c = CardT"
    by (auto simp: card_named_def std_card_def)
  have "kind black_joker = JokerT" "kind red_joker = JokerT"
    by (simp_all add: black_joker_def red_joker_def)
  then have "black_joker \<notin> set ?cs" "red_joker \<notin> set ?cs"
    using nj by (metis cls.distinct(1))+
  then have jb: "count_list ?cs black_joker = 0" "count_list ?cs red_joker = 0"
    by (simp_all only: count_list_0_iff not_False_eq_True)
  have cnt: "\<And>s r. (s, r) \<in> set all_combinations \<Longrightarrow>
               count_list (?cs @ [black_joker, red_joker]) (std_card r s) = 1"
  proof -
    fix s r assume "(s, r) \<in> set all_combinations"
    then have "1 \<le> r" "r \<le> 13" "1 \<le> s" "s \<le> 4" by (auto simp: all_combinations_def)
    then have "count_list ?cs (std_card r s) = 1" by (rule count_named_cards [OF si ri])
    then show "count_list (?cs @ [black_joker, red_joker]) (std_card r s) = 1"
      by (simp add: std_card_def black_joker_def red_joker_def)
  qed
  have all: "list_all (\<lambda>(s, r). count_list (?cs @ [black_joker, red_joker]) (std_card r s) = 1)
               all_combinations"
    unfolding list_all_iff
  proof (rule ballI)
    fix x assume x: "x \<in> set all_combinations"
    obtain s r where "x = (s, r)" by (cases x)
    with x cnt [of s r]
    show "case x of (s, r) \<Rightarrow> count_list (?cs @ [black_joker, red_joker]) (std_card r s) = 1"
      by (simp only: prod.case)
  qed
  have l54: "length (?cs @ [black_joker, red_joker]) = 54" using len by simp
  have j1: "count_list (?cs @ [black_joker, red_joker]) black_joker = 1"
    using jb by (simp add: black_joker_def red_joker_def)
  have j2: "count_list (?cs @ [black_joker, red_joker]) red_joker = 1"
    using jb by (simp add: black_joker_def red_joker_def)
  show ?thesis
    by (rule exI [of _ ?cs]) (intro conjI refl eq len l54 all j1 j2)
qed

theorem standard_deck_contents_witness:
  "iteration_of suits_dict [''Hearts'', ''Clubs'', ''Diamonds'', ''Spades'']
   \<and> iteration_of ranks_dict [''King'', ''2'', ''10'', ''Ace'', ''3'', ''4'', ''Queen'', ''5'',
        ''6'', ''7'', ''Jack'', ''8'', ''9'']
   \<and> (\<exists>cs. Deck_init [''Hearts'', ''Clubs'', ''Diamonds'', ''Spades'']
              [''King'', ''2'', ''10'', ''Ace'', ''3'', ''4'', ''Queen'', ''5'', ''6'', ''7'',
               ''Jack'', ''8'', ''9''] []
            = Inr (cs @ [black_joker, red_joker])
          \<and> cs = map card_named (List.product [''Hearts'', ''Clubs'', ''Diamonds'', ''Spades'']
              [''King'', ''2'', ''10'', ''Ace'', ''3'', ''4'', ''Queen'', ''5'', ''6'', ''7'',
               ''Jack'', ''8'', ''9''])
          \<and> length cs = 52
          \<and> length (cs @ [black_joker, red_joker]) = 54
          \<and> list_all (\<lambda>(s, r). count_list (cs @ [black_joker, red_joker]) (std_card r s) = 1)
               all_combinations
          \<and> count_list (cs @ [black_joker, red_joker]) black_joker = 1
          \<and> count_list (cs @ [black_joker, red_joker]) red_joker = 1)"
proof -
  have s: "iteration_of suits_dict [''Hearts'', ''Clubs'', ''Diamonds'', ''Spades'']"
    by (auto simp: iteration_of_def suits_dict_def)
  have r: "iteration_of ranks_dict [''King'', ''2'', ''10'', ''Ace'', ''3'', ''4'', ''Queen'',
        ''5'', ''6'', ''7'', ''Jack'', ''8'', ''9'']"
    by (auto simp: iteration_of_def ranks_dict_def)
  show ?thesis using s r standard_deck_contents [OF s r] by blast
qed

text \<open>The order of the deck is not determined by the source: two admissible iteration
  orders of the suit names give two different decks.\<close>

theorem standard_deck_order_not_fixed:
  "iteration_of suits_dict [''Clubs'', ''Spades'', ''Diamonds'', ''Hearts'']
   \<and> iteration_of suits_dict [''Hearts'', ''Clubs'', ''Diamonds'', ''Spades'']
   \<and> iteration_of ranks_dict (map fst ranks_dict)
   \<and> Deck_init [''Clubs'', ''Spades'', ''Diamonds'', ''Hearts''] (map fst ranks_dict) []
       \<noteq> Deck_init [''Hearts'', ''Clubs'', ''Diamonds'', ''Spades''] (map fst ranks_dict) []"
proof -
  have a: "iteration_of suits_dict [''Clubs'', ''Spades'', ''Diamonds'', ''Hearts'']"
    by (auto simp: iteration_of_def suits_dict_def)
  have b: "iteration_of suits_dict [''Hearts'', ''Clubs'', ''Diamonds'', ''Spades'']"
    by (auto simp: iteration_of_def suits_dict_def)
  have r: "iteration_of ranks_dict (map fst ranks_dict)"
    by (simp add: iteration_of_def ranks_dict_def)
  have "card_named (''Clubs'', ''Ace'') \<noteq> card_named (''Hearts'', ''Ace'')"
    by (simp add: card_named_def std_card_def suits_dict_def)
  then have "Deck_init [''Clubs'', ''Spades'', ''Diamonds'', ''Hearts''] (map fst ranks_dict) []
       \<noteq> Deck_init [''Hearts'', ''Clubs'', ''Diamonds'', ''Spades''] (map fst ranks_dict) []"
    using generate_standard_deck_eq [OF a r] generate_standard_deck_eq [OF b r]
    by (simp add: Deck_init_def ranks_dict_def)
  then show ?thesis using a b r by simp
qed

subsection \<open>Selection with a single exclusion\<close>

lemma get_test_card_rank_exclusion:
  assumes "scalar_rank_exclusion v"
  shows "\<exists>t. get_test_card_rank (strip_exclusion v) = Inr t \<and> 1 \<le> rank t \<and> rank t \<le> 13"
proof (cases v)
  case (VInt i)
  then show ?thesis using assms by (simp add: Card_init_def)
next
  case (VStr s)
  then have k: "tl s \<in> set (map fst ranks_dict)" using assms by simp
  obtain n where "map_of ranks_dict (tl s) = Some n" "1 \<le> n" "n \<le> 13"
    using ranks_dict_key [OF k] by blast
  then show ?thesis using VStr k by (simp add: Card_init_def suits_dict_def)
qed (use assms in simp_all)

lemma criteria_of_exclusion:
  assumes "scalar_rank_exclusion v"
  shows "v \<noteq> VNone" and "criteria_list v = Inr [v]" and "is_exclusion v"
  using assms by (cases v; simp)+

text \<open>What the code does with a criterion that is a single exclusion, on any deck: the
  exclusion loop leaves the cards of the other ranks, and the inclusion loop, which has
  no guard for an empty inclusion list, replaces them by the empty list.\<close>

lemma select_single_exclusion_discards:
  assumes "scalar_rank_exclusion v"
  shows "\<exists>t. get_test_card_rank (strip_exclusion v) = Inr t \<and> 1 \<le> rank t \<and> rank t \<le> 13
           \<and> apply_exclusions get_test_card_rank rank [strip_exclusion v] deck
               = Inr (filter (\<lambda>card. rank card \<noteq> rank t) deck)
           \<and> Deck_select v VNone VNone VNone deck = Inr []"
proof -
  obtain t where t: "get_test_card_rank (strip_exclusion v) = Inr t" "1 \<le> rank t" "rank t \<le> 13"
    using get_test_card_rank_exclusion [OF assms] by blast
  have ex: "apply_exclusions get_test_card_rank rank [strip_exclusion v] deck
            = Inr (filter (\<lambda>card. rank card \<noteq> rank t) deck)"
    using t(1) by (simp add: matching_def)
  have sep: "separate_exclusions [v] = ([strip_exclusion v], [])"
    using criteria_of_exclusion(3) [OF assms] by (simp add: separate_exclusions_def)
  have stage: "select_stage get_test_card_rank rank v deck = Inr []"
    using assms criteria_of_exclusion(1,2) [OF assms] sep ex
    by (cases v) (simp_all add: select_stage_def)
  have "Deck_select v VNone VNone VNone deck = Inr []"
    using stage
    by (simp add: Deck_select_def select_stage_def select_color_def select_face_card_def
        Deck_init_args_def flatten_nested_collections_def)
  then show ?thesis using t ex by blast
qed

text \<open>An exclusion next to an inclusion of another rank changes nothing: on the standard
  deck \<^verbatim>\<open>select(rank=[-3, 4])\<close> is \<^verbatim>\<open>select(rank=4)\<close>.\<close>

lemma select_exclusion_without_effect:
  "Deck_select (VList [VInt (- 3), VInt 4]) VNone VNone VNone standard_deck
   = Deck_select (VInt 4) VNone VNone VNone standard_deck"
  by (simp add: Deck_select_def select_stage_def separate_exclusions_def matching_def
      Card_init_def select_color_def select_face_card_def Deck_init_args_def
      flatten_nested_collections_def standard_deck_def suits_dict_def ranks_dict_def
      card_named_def std_card_def black_joker_def red_joker_def)

text \<open>
  C1. On a standard 54-card deck, \<^verbatim>\<open>select\<close> with only an exclusion of a scalar rank
  should return the deck without the cards of that rank: \<open>len - count\<close> cards, here
  \<open>54 - 4 = 50\<close>, and not an empty deck. The code does not: for \<^verbatim>\<open>select(rank=-3)\<close> on
  the standard deck the exclusion loop computes the 50 cards that are not threes, and
  the value returned is the empty deck.
\<close>

theorem select_exclusion_only_standard_deck:
  "Deck_init (map fst suits_dict) (map fst ranks_dict) [] = Inr standard_deck
   \<and> length standard_deck = 54
   \<and> count_list (map rank standard_deck) 3 = 4
   \<and> apply_exclusions get_test_card_rank rank [VInt 3] standard_deck
       = Inr (filter (\<lambda>card. rank card \<noteq> 3) standard_deck)
   \<and> length (filter (\<lambda>card. rank card \<noteq> 3) standard_deck) = 50
   \<and> Deck_select (VInt (- 3)) VNone VNone VNone standard_deck = Inr []
   \<and> length ([] :: card list) \<noteq> length standard_deck - count_list (map rank standard_deck) 3"
proof -
  have s: "iteration_of suits_dict (map fst suits_dict)"
    by (simp add: iteration_of_def suits_dict_def)
  have r: "iteration_of ranks_dict (map fst ranks_dict)"
    by (simp add: iteration_of_def ranks_dict_def)
  have d: "Deck_init (map fst suits_dict) (map fst ranks_dict) [] = Inr standard_deck"
    using generate_standard_deck_eq [OF s r] by (simp add: Deck_init_def standard_deck_def)
  have l: "length standard_deck = 54"
    by (simp add: standard_deck_def suits_dict_def ranks_dict_def)
  have c: "count_list (map rank standard_deck) 3 = 4"
    by (simp add: standard_deck_def suits_dict_def ranks_dict_def card_named_def std_card_def
        black_joker_def red_joker_def)
  have ne: "standard_deck \<noteq> []" using l by auto
  have x: "apply_exclusions get_test_card_rank rank [VInt 3] standard_deck
           = Inr (filter (\<lambda>card. rank card \<noteq> 3) standard_deck)"
    using ne by (simp add: matching_def Card_init_def)
  have f: "length (filter (\<lambda>card. rank card \<noteq> 3) standard_deck) = 50"
    by (simp add: standard_deck_def suits_dict_def ranks_dict_def card_named_def std_card_def
        black_joker_def red_joker_def)
  have e: "Deck_select (VInt (- 3)) VNone VNone VNone standard_deck = Inr []"
    by (simp add: Deck_select_def select_stage_def separate_exclusions_def matching_def
        Card_init_def select_color_def select_face_card_def Deck_init_args_def
        flatten_nested_collections_def)
  show ?thesis using d l c x f e by simp
qed

end
